theory Spec2Isabelle
  imports Main "HOL-Library.Multiset"
begin

section \<open>Strings, timestamps and errors\<close>

text \<open>
  A JavaScript string is modelled as a \<^typ>\<open>string\<close>, one \<^typ>\<open>char\<close> per code unit
  (restricted to the Latin-1 range), so that \<open>length\<close> is the \<open>.length\<close> the validators
  read. A \<open>Date\<close> is its number of milliseconds since the epoch.
\<close>

type_synonym timestamp = nat

text \<open>
  The white space that \<open>String.prototype.trim\<close> removes, as far as it lies in the
  Latin-1 range: TAB, LF, VT, FF, CR, SPACE and NBSP.
\<close>

definition is_ws :: "char \<Rightarrow> bool" where
  "is_ws c = ((of_char c :: nat) \<in> {9, 10, 11, 12, 13, 32, 160})"

definition trim :: "string \<Rightarrow> string" where
  "trim s = rev (dropWhile is_ws (rev (dropWhile is_ws s)))"

text \<open>
  A thrown JavaScript error: its \<open>name\<close>, its \<open>message\<close> and, for errors of the MongoDB
  driver, its \<open>code\<close>. \<open>new Error(msg)\<close> has the name \<open>Error\<close>.
\<close>

datatype js_error = JsError (err_name: string) (err_message: string) (err_code: "nat option")

definition Error :: "string \<Rightarrow> js_error" where
  "Error msg = JsError ''Error'' msg None"

section \<open>The task schema (database/index.ts)\<close>

text \<open>
  A stored document of the \<open>Task\<close> model: \<open>_id\<close> (here \<open>task_id\<close>, the hex string of the
  ObjectId), the two schema paths \<open>title\<close> and \<open>status\<close>, and the two paths that
  \<open>timestamps: true\<close> adds. The status is kept as the string the storage engine holds, so
  that the enum constraint is a property of the operations and not of the type.
\<close>

record ITask =
  task_id :: string
  title :: string
  status :: string
  createdAt :: timestamp
  updatedAt :: timestamp

type_synonym collection = "ITask list"

text \<open>
  The validators of the path \<open>title\<close>, in the order the schema declares them
  (\<open>required\<close>, \<open>minlength: 1\<close>, \<open>maxlength: 200\<close>), each with its message. Mongoose
  reports the first validator of a path that fails. The value they see is the one the
  setter \<open>trim: true\<close> has produced.
\<close>

definition title_validators :: "((string \<Rightarrow> bool) \<times> string) list" where
  "title_validators =
     [(\<lambda>v. length v \<noteq> 0, ''Title is required''),
      (\<lambda>v. 1 \<le> length v, ''Title cannot be empty''),
      (\<lambda>v. length v \<le> 200, ''Title cannot exceed 200 characters'')]"

definition status_values :: "string list" where
  "status_values = [''open'', ''done'']"

definition status_validators :: "((string \<Rightarrow> bool) \<times> string) list" where
  "status_validators =
     [(\<lambda>v. v \<in> set status_values, ''Status must be either open or done'')]"

definition status_default :: string where
  "status_default = ''open''"

fun doValidate :: "(('a \<Rightarrow> bool) \<times> string) list \<Rightarrow> 'a \<Rightarrow> string option" where
  "doValidate [] v = None"
| "doValidate ((ok, msg) # vs) v = (if ok v then doValidate vs v else Some msg)"

text \<open>
  The failures of a set of paths, each path with the message of its first failing
  validator; a path that is not given (\<open>None\<close>) is not validated. The failures are
  listed in the order of the schema paths; the order in which the library lists them in
  the message of the error is not modelled, and no statement below reads the message.
\<close>

definition validate_paths :: "string option \<Rightarrow> string option \<Rightarrow> (string \<times> string) list" where
  "validate_paths t s =
     (case t of None \<Rightarrow> []
      | Some v \<Rightarrow> (case doValidate title_validators v of None \<Rightarrow> []
                   | Some m \<Rightarrow> [(''title'', m)])) @
     (case s of None \<Rightarrow> []
      | Some v \<Rightarrow> (case doValidate status_validators v of None \<Rightarrow> []
                   | Some m \<Rightarrow> [(''status'', m)]))"

fun join_failures :: "(string \<times> string) list \<Rightarrow> string" where
  "join_failures [] = []"
| "join_failures [(p, m)] = p @ '': '' @ m"
| "join_failures ((p, m) # f # fs) = p @ '': '' @ m @ '', '' @ join_failures (f # fs)"

definition ValidationError :: "string \<Rightarrow> (string \<times> string) list \<Rightarrow> js_error" where
  "ValidationError prefix fs =
     JsError ''ValidationError'' (prefix @ '': '' @ join_failures fs) None"

definition DuplicateKeyError :: js_error where
  "DuplicateKeyError = JsError ''MongoServerError'' ''E11000 duplicate key error'' (Some 11000)"

section \<open>The data access layer (tasks/data.ts)\<close>

text \<open>
  The collection is the list of its documents in insertion order. The clock and the
  identifier generator of the storage engine are inputs of the operations that use them:
  \<open>now\<close> is the time of the write and \<open>oid\<close> the ObjectId that \<open>new Task\<close> generates.
\<close>

record CreateTaskInput =
  ct_title :: string

record UpdateTaskInput =
  ut_title :: "string option"
  ut_status :: "string option"

definition is_hex :: "char \<Rightarrow> bool" where
  "is_hex c = (c \<in> set ''0123456789abcdefABCDEF'')"

text \<open>
  Modelled from the spec: \<open>Types.ObjectId.isValid\<close> belongs to the storage library, which
  is not part of the sources. The spec gives the well-formed identifiers of the reference
  storage engine as the 24-character hex strings; the parameter schema of the repository
  (\<open>TaskParamsSchema\<close>, \<open>/^[0-9a-fA-F]{24}$/\<close>) reads an identifier the same way.
\<close>

definition ObjectId_isValid :: "string \<Rightarrow> bool" where
  "ObjectId_isValid s = (length s = 24 \<and> list_all is_hex s)"

definition validateObjectId :: "string \<Rightarrow> js_error option" where
  "validateObjectId i =
     (if \<not> ObjectId_isValid i then Some (Error ''Invalid task ID format'') else None)"

text \<open>
  An ObjectId compares by its bytes, so two hex strings name the same document when they
  agree up to the case of their digits.
\<close>

definition ascii_lower :: "char \<Rightarrow> char" where
  "ascii_lower c =
     (case map_of (zip ''ABCDEFGHIJKLMNOPQRSTUVWXYZ'' ''abcdefghijklmnopqrstuvwxyz'') c of
        None \<Rightarrow> c
      | Some l \<Rightarrow> l)"

definition same_id :: "string \<Rightarrow> ITask \<Rightarrow> bool" where
  "same_id i t = (map ascii_lower (task_id t) = map ascii_lower i)"

text \<open>\<open>Task.find({}).sort({ createdAt: -1 })\<close>: the documents, newest first.\<close>

fun insert_desc :: "ITask \<Rightarrow> ITask list \<Rightarrow> ITask list" where
  "insert_desc t [] = [t]"
| "insert_desc t (u # us) =
     (if createdAt u \<le> createdAt t then t # u # us else u # insert_desc t us)"

definition sort_createdAt_desc :: "ITask list \<Rightarrow> ITask list" where
  "sort_createdAt_desc ts = foldr insert_desc ts []"

definition findAll :: "collection \<Rightarrow> js_error + ITask list" where
  "findAll coll = Inr (sort_createdAt_desc coll)"

text \<open>
  \<open>new Task(data)\<close> followed by \<open>save()\<close>: the setter trims the title, the default gives
  the status, the document is validated, the timestamps are set to the time of the write
  and the document is inserted. A failed validation or a duplicate \<open>_id\<close> leaves the
  collection as it was.
\<close>

definition create ::
  "timestamp \<Rightarrow> string \<Rightarrow> CreateTaskInput \<Rightarrow> collection \<Rightarrow> (js_error + ITask) \<times> collection"
where
  "create now oid data coll =
     (let t = trim (ct_title data); s = status_default;
          fs = validate_paths (Some t) (Some s)
      in if fs \<noteq> [] then (Inl (ValidationError ''Task validation failed'' fs), coll)
         else if list_ex (same_id oid) coll then (Inl DuplicateKeyError, coll)
         else (let task = \<lparr>task_id = oid, title = t, status = s,
                            createdAt = now, updatedAt = now\<rparr>
               in (Inr task, coll @ [task])))"

text \<open>\<open>Task.findById(id)\<close> after the identifier check; \<open>None\<close> is JavaScript's \<open>null\<close>.\<close>

definition findById :: "string \<Rightarrow> collection \<Rightarrow> js_error + ITask option" where
  "findById i coll =
     (case validateObjectId i of Some e \<Rightarrow> Inl e
      | None \<Rightarrow> Inr (find (same_id i) coll))"

text \<open>
  \<open>Task.findByIdAndUpdate(id, updates, {new: true, runValidators: true})\<close>: the update is
  cast by the schema (the title trimmed), the update validators run on the paths the
  update gives, then the first matching document gets the given paths and a fresh
  \<open>updatedAt\<close>, and the updated document is returned (\<open>new: true\<close>).
\<close>

definition apply_updates :: "timestamp \<Rightarrow> UpdateTaskInput \<Rightarrow> ITask \<Rightarrow> ITask" where
  "apply_updates now u t =
     t\<lparr>title := (case ut_title u of None \<Rightarrow> title t | Some v \<Rightarrow> trim v),
       status := (case ut_status u of None \<Rightarrow> status t | Some v \<Rightarrow> v),
       updatedAt := now\<rparr>"

fun update_first :: "('a \<Rightarrow> bool) \<Rightarrow> ('a \<Rightarrow> 'a) \<Rightarrow> 'a list \<Rightarrow> 'a list" where
  "update_first p f [] = []"
| "update_first p f (x # xs) = (if p x then f x # xs else x # update_first p f xs)"

fun remove_first :: "('a \<Rightarrow> bool) \<Rightarrow> 'a list \<Rightarrow> 'a list" where
  "remove_first p [] = []"
| "remove_first p (x # xs) = (if p x then xs else x # remove_first p xs)"

definition updateById ::
  "timestamp \<Rightarrow> string \<Rightarrow> UpdateTaskInput \<Rightarrow> collection \<Rightarrow> (js_error + ITask option) \<times> collection"
where
  "updateById now i updates coll =
     (case validateObjectId i of Some e \<Rightarrow> (Inl e, coll)
      | None \<Rightarrow>
         (let fs = validate_paths (map_option trim (ut_title updates)) (ut_status updates)
          in if fs \<noteq> [] then (Inl (ValidationError ''Validation failed'' fs), coll)
             else (case find (same_id i) coll of
                     None \<Rightarrow> (Inr None, coll)
                   | Some t \<Rightarrow> (Inr (Some (apply_updates now updates t)),
                                update_first (same_id i) (apply_updates now updates) coll))))"

definition deleteById :: "string \<Rightarrow> collection \<Rightarrow> (js_error + ITask option) \<times> collection" where
  "deleteById i coll =
     (case validateObjectId i of Some e \<Rightarrow> (Inl e, coll)
      | None \<Rightarrow> (Inr (find (same_id i) coll), remove_first (same_id i) coll))"

text \<open>
  The aggregation of \<open>getStats\<close>: \<open>$group\<close> makes one group for each status value that
  occurs, counting its documents; \<open>$project\<close> renames the group key to \<open>status\<close>.
\<close>

record TaskStats =
  stat_status :: string
  stat_count :: nat

definition getStats :: "collection \<Rightarrow> js_error + TaskStats list" where
  "getStats coll =
     Inr (map (\<lambda>s. \<lparr>stat_status = s, stat_count = length (filter (\<lambda>t. status t = s) coll)\<rparr>)
            (remdups (map status coll)))"

definition count_tasks :: "collection \<Rightarrow> js_error + nat" where
  "count_tasks coll = Inr (length coll)"

text \<open>
  The write operations of the store, for the states a sequence of them reaches from the
  empty collection. A failed operation leaves the collection as it was.
\<close>

datatype store_op =
    Create timestamp string CreateTaskInput
  | UpdateById timestamp string UpdateTaskInput
  | DeleteById string

fun apply_op :: "store_op \<Rightarrow> collection \<Rightarrow> collection" where
  "apply_op (Create now oid d) coll = snd (create now oid d coll)"
| "apply_op (UpdateById now i u) coll = snd (updateById now i u coll)"
| "apply_op (DeleteById i) coll = snd (deleteById i coll)"

definition run_ops :: "store_op list \<Rightarrow> collection" where
  "run_ops ops = foldl (\<lambda>coll op. apply_op op coll) [] ops"

text \<open>The enum constraint of the path \<open>status\<close>, as a predicate on a stored document.\<close>

definition status_ok :: "ITask \<Rightarrow> bool" where
  "status_ok t = (status t = ''open'' \<or> status t = ''done'')"

section \<open>The business logic layer (tasks/services.ts)\<close>

text \<open>
  The task as the API returns it. \<open>toISOString\<close> is one-to-one on dates, so the two
  timestamps stay the numbers they are.
\<close>

record TaskResponse =
  resp_id :: string
  resp_title :: string
  resp_status :: string
  resp_createdAt :: timestamp
  resp_updatedAt :: timestamp

definition formatTaskResponse :: "ITask \<Rightarrow> TaskResponse" where
  "formatTaskResponse task =
     \<lparr>resp_id = task_id task, resp_title = title task, resp_status = status task,
      resp_createdAt = createdAt task, resp_updatedAt = updatedAt task\<rparr>"

definition getAllTasks :: "collection \<Rightarrow> js_error + TaskResponse list" where
  "getAllTasks coll =
     (case findAll coll of Inl e \<Rightarrow> Inl e
      | Inr tasks \<Rightarrow> Inr (map formatTaskResponse tasks))"

text \<open>
  The four operations below are left to be implemented: each one throws before it reads
  or writes the store.
\<close>

definition createTask :: "CreateTaskInput \<Rightarrow> collection \<Rightarrow> (js_error + TaskResponse) \<times> collection" where
  "createTask data coll =
     (Inl (Error ''Not implemented yet - you need to implement task creation in services!''), coll)"

definition getTaskById :: "string \<Rightarrow> collection \<Rightarrow> js_error + TaskResponse" where
  "getTaskById i coll =
     Inl (Error ''Not implemented yet - you need to implement get task by ID in services!'')"

definition updateTask ::
  "string \<Rightarrow> UpdateTaskInput \<Rightarrow> collection \<Rightarrow> (js_error + TaskResponse) \<times> collection"
where
  "updateTask i updates coll =
     (Inl (Error ''Not implemented yet - you need to implement task updates in services!''), coll)"

definition deleteTask :: "string \<Rightarrow> collection \<Rightarrow> (js_error + unit) \<times> collection" where
  "deleteTask i coll =
     (Inl (Error ''Not implemented yet - you need to implement task deletion in services!''), coll)"

definition getTaskStats :: "collection \<Rightarrow> js_error + TaskStats list" where
  "getTaskStats coll = getStats coll"

definition hasAnyTasks :: "collection \<Rightarrow> js_error + bool" where
  "hasAnyTasks coll =
     (case count_tasks coll of Inl e \<Rightarrow> Inl e | Inr n \<Rightarrow> Inr (0 < n))"

section \<open>The task routes (tasks/index.ts) and the application (app.ts)\<close>

datatype payload = TaskListData "TaskResponse list" | StatsData "TaskStats list"

record ApiResponse =
  success :: bool
  data :: "payload option"
  error :: "string option"
  details :: "string option"

record http_response =
  statusCode :: nat
  body :: ApiResponse

datatype http_method = GET | POST | PATCH | DELETE | PUT

text \<open>
  A request as the routes see it: the method, the path as its list of non-empty segments
  (Express ignores a trailing slash) and the string fields of the parsed JSON body.
\<close>

record Request =
  req_method :: http_method
  req_path :: "string list"
  req_body :: "(string \<times> string) list"

text \<open>
  A handler either sends a response (\<open>Inr\<close>) or hands an error to \<open>next\<close> (\<open>Inl\<close>); it
  returns the collection as it leaves it.
\<close>

type_synonym handler = "Request \<Rightarrow> collection \<Rightarrow> (js_error + http_response) \<times> collection"

definition get_stats :: handler where
  "get_stats req coll =
     (case getTaskStats coll of
        Inl e \<Rightarrow> (Inl e, coll)
      | Inr stats \<Rightarrow>
          (Inr \<lparr>statusCode = 200,
                body = \<lparr>success = True, data = Some (StatsData stats),
                         error = None, details = None\<rparr>\<rparr>, coll))"

definition get_all :: handler where
  "get_all req coll =
     (case getAllTasks coll of
        Inl e \<Rightarrow> (Inl e, coll)
      | Inr tasks \<Rightarrow>
          (Inr \<lparr>statusCode = 200,
                body = \<lparr>success = True, data = Some (TaskListData tasks),
                         error = None, details = None\<rparr>\<rparr>, coll))"

definition not_implemented :: "string \<Rightarrow> http_response" where
  "not_implemented msg =
     \<lparr>statusCode = 501,
      body = \<lparr>success = False, data = None, error = Some msg, details = None\<rparr>\<rparr>"

definition post_task :: handler where
  "post_task req coll =
     (Inr (not_implemented ''Not implemented yet - you need to implement task creation!''), coll)"

definition get_by_id :: handler where
  "get_by_id req coll =
     (Inr (not_implemented ''Not implemented yet - you need to implement get task by ID!''), coll)"

definition patch_task :: handler where
  "patch_task req coll =
     (Inr (not_implemented ''Not implemented yet - you need to implement task updates!''), coll)"

definition delete_task :: handler where
  "delete_task req coll =
     (Inr (not_implemented ''Not implemented yet - you need to implement task deletion!''), coll)"

text \<open>
  \<open>decodeURIComponent\<close>, as far as a route needs it: whether it returns or throws a
  \<open>URIError\<close>. An escape is \<open>%\<close> and two hex digits; an escaped byte below 128 stands
  for itself, and an escaped byte from 128 on must start a well-formed UTF-8 sequence
  whose other bytes follow as escapes. The first argument of \<open>uri_decodes\<close> holds the
  ranges of the bytes that the sequence under way still expects.
\<close>

definition hex_val :: "char \<Rightarrow> nat option" where
  "hex_val c =
     map_of (zip ''0123456789abcdefABCDEF''
                 [0, 1, 2, 3, 4, 5, 6, 7, 8, 9, 10, 11, 12, 13, 14, 15, 10, 11, 12, 13, 14, 15]) c"

definition pct_byte :: "char \<Rightarrow> char \<Rightarrow> nat option" where
  "pct_byte a b =
     (case hex_val a of
        None \<Rightarrow> None
      | Some x \<Rightarrow> (case hex_val b of None \<Rightarrow> None | Some y \<Rightarrow> Some (16 * x + y)))"

definition continuation_ranges :: "nat \<Rightarrow> (nat \<times> nat) list option" where
  "continuation_ranges B =
     (if 194 \<le> B \<and> B \<le> 223 then Some [(128, 191)]
      else if B = 224 then Some [(160, 191), (128, 191)]
      else if 225 \<le> B \<and> B \<le> 236 then Some [(128, 191), (128, 191)]
      else if B = 237 then Some [(128, 159), (128, 191)]
      else if 238 \<le> B \<and> B \<le> 239 then Some [(128, 191), (128, 191)]
      else if B = 240 then Some [(144, 191), (128, 191), (128, 191)]
      else if 241 \<le> B \<and> B \<le> 243 then Some [(128, 191), (128, 191), (128, 191)]
      else if B = 244 then Some [(128, 143), (128, 191), (128, 191)]
      else None)"

fun uri_decodes :: "(nat \<times> nat) list \<Rightarrow> string \<Rightarrow> bool" where
  "uri_decodes pend [] = (pend = [])"
| "uri_decodes pend [c] = (pend = [] \<and> c \<noteq> CHR ''%'')"
| "uri_decodes pend [c, a] = (pend = [] \<and> c \<noteq> CHR ''%'' \<and> a \<noteq> CHR ''%'')"
| "uri_decodes pend (c # a # b # rest) =
     (if c = CHR ''%'' then
        (case pct_byte a b of
           None \<Rightarrow> False
         | Some B \<Rightarrow>
             (case pend of
                [] \<Rightarrow> (if B < 128 then uri_decodes [] rest
                       else (case continuation_ranges B of
                               None \<Rightarrow> False
                             | Some rs \<Rightarrow> uri_decodes rs rest))
              | r # rs \<Rightarrow> (fst r \<le> B \<and> B \<le> snd r \<and> uri_decodes rs rest)))
      else (pend = [] \<and> uri_decodes [] (a # b # rest)))"

text \<open>
  \<open>decode_param\<close> of the router: the value of a path parameter is decoded, and a value
  that does not decode makes the error \<open>Failed to decode param\<close>. It gives the error
  thrown, if any; the decoded value is left out, no handler of the task routes reads it.
\<close>

definition decode_param :: "string \<Rightarrow> js_error option" where
  "decode_param val =
     (if val = [] \<or> uri_decodes [] val then None
      else Some (JsError ''URIError''
                   (''Failed to decode param '' @ [CHR 0x27] @ val @ [CHR 0x27]) None))"

text \<open>
  The routing of Express, as far as the application uses it. A router is the list of its
  routes in the order of their registration. It tries each route in turn: the path is
  matched against the pattern of the route, where a literal segment matches without
  regard to case (the default of a router) and a parameter segment such as \<open>:id\<close> matches
  one segment of one or more characters other than \<open>/\<close>; the parameters of a matching
  path are then decoded, and an error of the decoding is held while the search goes on;
  once an error is held no route matches any more; otherwise the route takes the request
  if its method is the method of the request. When no route has taken the request, the
  router hands the held error on, if there is one, and else the request falls through.
\<close>

datatype seg_pattern = Lit string | Param string

fun match_path :: "seg_pattern list \<Rightarrow> string list \<Rightarrow> bool" where
  "match_path [] [] = True"
| "match_path (Lit s # ps) (x # xs) =
     (map ascii_lower x = map ascii_lower s \<and> match_path ps xs)"
| "match_path (Param n # ps) (x # xs) =
     (x \<noteq> [] \<and> CHR ''/'' \<notin> set x \<and> match_path ps xs)"
| "match_path _ _ = False"

fun decode_params :: "seg_pattern list \<Rightarrow> string list \<Rightarrow> js_error option" where
  "decode_params (Param n # ps) (x # xs) =
     (case decode_param x of Some e \<Rightarrow> Some e | None \<Rightarrow> decode_params ps xs)"
| "decode_params (Lit s # ps) (x # xs) = decode_params ps xs"
| "decode_params _ _ = None"

type_synonym route = "http_method \<times> seg_pattern list \<times> handler"

fun dispatch_from ::
  "js_error option \<Rightarrow> route list \<Rightarrow> Request \<Rightarrow> collection
   \<Rightarrow> ((js_error + http_response) \<times> collection) option"
where
  "dispatch_from layerError [] req coll =
     (case layerError of None \<Rightarrow> None | Some e \<Rightarrow> Some (Inl e, coll))"
| "dispatch_from layerError ((m, pat, h) # rs) req coll =
     (if match_path pat (req_path req) then
        (case decode_params pat (req_path req) of
           Some e \<Rightarrow>
             dispatch_from (case layerError of None \<Rightarrow> Some e | Some e0 \<Rightarrow> Some e0) rs req coll
         | None \<Rightarrow>
             (if layerError = None \<and> req_method req = m then Some (h req coll)
              else dispatch_from layerError rs req coll))
      else dispatch_from layerError rs req coll)"

definition dispatch ::
  "route list \<Rightarrow> Request \<Rightarrow> collection \<Rightarrow> ((js_error + http_response) \<times> collection) option"
where
  "dispatch rs req coll = dispatch_from None rs req coll"

definition taskRoutes :: "route list" where
  "taskRoutes =
     [(GET, [Lit ''stats''], get_stats),
      (GET, [], get_all),
      (POST, [], post_task),
      (GET, [Param ''id''], get_by_id),
      (PATCH, [Param ''id''], patch_task),
      (DELETE, [Param ''id''], delete_task)]"

text \<open>The global error handler; \<open>production\<close> is \<open>NODE_ENV === 'production'\<close>.\<close>

definition errorHandler :: "bool \<Rightarrow> js_error \<Rightarrow> http_response" where
  "errorHandler production e =
     (if err_name e = ''MongoServerError'' \<and> err_code e = Some 11000 then
        \<lparr>statusCode = 400,
         body = \<lparr>success = False, data = None, error = Some ''Duplicate entry'',
                  details = None\<rparr>\<rparr>
      else if err_name e = ''ValidationError'' then
        \<lparr>statusCode = 400,
         body = \<lparr>success = False, data = None, error = Some ''Validation failed'',
                  details = Some (err_message e)\<rparr>\<rparr>
      else if err_name e = ''CastError'' then
        \<lparr>statusCode = 400,
         body = \<lparr>success = False, data = None, error = Some ''Invalid ID format'',
                  details = None\<rparr>\<rparr>
      else
        \<lparr>statusCode = 500,
         body = \<lparr>success = False, data = None,
                  error = Some (if production then ''Internal server error'' else err_message e),
                  details = None\<rparr>\<rparr>)"

definition notFound :: http_response where
  "notFound =
     \<lparr>statusCode = 404,
      body = \<lparr>success = False, data = None, error = Some ''Endpoint not found'',
               details = None\<rparr>\<rparr>"

text \<open>
  \<open>app.use(path, router)\<close>: the router sees the requests under the mount path, with the
  mount path taken off.
\<close>

fun strip_mount :: "string list \<Rightarrow> string list \<Rightarrow> string list option" where
  "strip_mount [] xs = Some xs"
| "strip_mount (m # ms) [] = None"
| "strip_mount (m # ms) (x # xs) =
     (if map ascii_lower x = map ascii_lower m then strip_mount ms xs else None)"

definition mounted ::
  "string list \<Rightarrow> (Request \<Rightarrow> collection \<Rightarrow> ((js_error + http_response) \<times> collection) option)
   \<Rightarrow> Request \<Rightarrow> collection \<Rightarrow> ((js_error + http_response) \<times> collection) option"
where
  "mounted mount router req coll =
     (case strip_mount mount (req_path req) of
        None \<Rightarrow> None
      | Some rest \<Rightarrow> router (req\<lparr>req_path := rest\<rparr>) coll)"

text \<open>The path as the request line has it, from its segments.\<close>

definition raw_path :: "string list \<Rightarrow> string" where
  "raw_path segs = concat (map (\<lambda>seg. CHR ''/'' # seg) segs)"

text \<open>
  The application: the health routes (a parameter here, they are outside the task
  resource), the task routes, the handler of unmatched paths, and the global error
  handler for what a route hands to \<open>next\<close>. The handler of unmatched paths is mounted on
  \<open>*\<close>, which takes the whole path as a parameter: a path that does not decode goes to
  the error handler instead. The middleware before the routes (security headers, CORS,
  body parsing, logging) is taken as done.
\<close>

definition app ::
  "(Request \<Rightarrow> collection \<Rightarrow> ((js_error + http_response) \<times> collection) option)
   \<Rightarrow> bool \<Rightarrow> Request \<Rightarrow> collection \<Rightarrow> http_response \<times> collection"
where
  "app healthRoutes production req coll =
     (case (case mounted [''api'', ''health''] healthRoutes req coll of
              Some r \<Rightarrow> Some r
            | None \<Rightarrow> mounted [''api'', ''tasks''] (dispatch taskRoutes) req coll) of
        None \<Rightarrow>
          (case decode_param (raw_path (req_path req)) of
             None \<Rightarrow> (notFound, coll)
           | Some e \<Rightarrow> (errorHandler production e, coll))
      | Some (Inr res, coll') \<Rightarrow> (res, coll')
      | Some (Inl e, coll') \<Rightarrow> (errorHandler production e, coll'))"

section \<open>The client: API binding (lib/api.ts) and mutation hooks (hooks/useTasks.ts)\<close>

type_synonym Task = TaskResponse

text \<open>
  The part of the query cache the hooks touch: the data held under the key of the task
  list (\<open>None\<close> while nothing is cached) and whether that query has been invalidated, which
  marks it for a refetch and leaves its data in place.
\<close>

record QueryCache =
  tasksList :: "Task list option"
  tasksList_invalidated :: bool

definition invalidateQueries_tasksList :: "QueryCache \<Rightarrow> QueryCache" where
  "invalidateQueries_tasksList cache = cache\<lparr>tasksList_invalidated := True\<rparr>"

text \<open>The binding of the create call is left to be implemented: it throws, and sends nothing.\<close>

definition taskApi_createTask :: "CreateTaskInput \<Rightarrow> js_error + Task" where
  "taskApi_createTask input =
     Inl (Error ''createTask not implemented yet - you need to implement this!'')"

text \<open>
  The options of a mutation and its life cycle: on issue \<open>onMutate\<close> runs, if there is one,
  and its result is kept as the context; when the call has resolved, \<open>onSuccess\<close> or
  \<open>onError\<close> runs and then \<open>onSettled\<close>, each if there is one.
\<close>

record ('v, 'd, 'c) MutationOptions =
  mutationFn :: "'v \<Rightarrow> js_error + 'd"
  onMutate :: "('v \<Rightarrow> QueryCache \<Rightarrow> 'c \<times> QueryCache) option"
  onSuccess :: "('d \<Rightarrow> 'v \<Rightarrow> 'c option \<Rightarrow> QueryCache \<Rightarrow> QueryCache) option"
  onError :: "(js_error \<Rightarrow> 'v \<Rightarrow> 'c option \<Rightarrow> QueryCache \<Rightarrow> QueryCache) option"
  onSettled :: "('v \<Rightarrow> 'c option \<Rightarrow> QueryCache \<Rightarrow> QueryCache) option"

definition issue ::
  "('v, 'd, 'c) MutationOptions \<Rightarrow> 'v \<Rightarrow> QueryCache \<Rightarrow> 'c option \<times> QueryCache"
where
  "issue opts vars cache =
     (case onMutate opts of
        None \<Rightarrow> (None, cache)
      | Some f \<Rightarrow> (case f vars cache of (ctx, cache') \<Rightarrow> (Some ctx, cache')))"

definition resolve ::
  "('v, 'd, 'c) MutationOptions \<Rightarrow> js_error + 'd \<Rightarrow> 'v \<Rightarrow> 'c option \<Rightarrow> QueryCache \<Rightarrow> QueryCache"
where
  "resolve opts outcome vars ctx cache =
     (let cache1 =
            (case outcome of
               Inr d \<Rightarrow> (case onSuccess opts of None \<Rightarrow> cache | Some f \<Rightarrow> f d vars ctx cache)
             | Inl e \<Rightarrow> (case onError opts of None \<Rightarrow> cache | Some f \<Rightarrow> f e vars ctx cache))
      in case onSettled opts of None \<Rightarrow> cache1 | Some f \<Rightarrow> f vars ctx cache1)"

definition mutate :: "('v, 'd, 'c) MutationOptions \<Rightarrow> 'v \<Rightarrow> QueryCache \<Rightarrow> QueryCache" where
  "mutate opts vars cache =
     (case issue opts vars cache of
        (ctx, cache') \<Rightarrow> resolve opts (mutationFn opts vars) vars ctx cache')"

definition useCreateTask :: "(CreateTaskInput, Task, unit) MutationOptions" where
  "useCreateTask =
     \<lparr>mutationFn = taskApi_createTask,
      onMutate = None,
      onSuccess = Some (\<lambda>d vars ctx cache. invalidateQueries_tasksList cache),
      onError = None,
      onSettled = None\<rparr>"

section \<open>Facts about the store\<close>

subsection \<open>Sorting\<close>

lemma insert_desc_mset: "mset (insert_desc t ts) = add_mset t (mset ts)"
  by (induction ts) auto

lemma insert_desc_set: "set (insert_desc t ts) = insert t (set ts)"
  by (induction ts) auto

lemma insert_desc_sorted:
  "sorted_wrt (\<lambda>a b. createdAt b \<le> createdAt a) ts \<Longrightarrow>
   sorted_wrt (\<lambda>a b. createdAt b \<le> createdAt a) (insert_desc t ts)"
  by (induction ts) (auto simp: insert_desc_set)

lemma sort_desc_mset: "mset (sort_createdAt_desc ts) = mset ts"
  by (induction ts) (auto simp: sort_createdAt_desc_def insert_desc_mset)

lemma sort_desc_sorted:
  "sorted_wrt (\<lambda>a b. createdAt b \<le> createdAt a) (sort_createdAt_desc ts)"
  by (induction ts) (auto simp: sort_createdAt_desc_def insert_desc_sorted)

subsection \<open>Grouping\<close>

lemma count_list_map_filter:
  "count_list (map f xs) s = length (filter (\<lambda>t. f t = s) xs)"
  by (induction xs) auto

lemma group_counts_sum:
  "sum_list (map (\<lambda>s. length (filter (\<lambda>t. f t = s) xs)) (remdups (map f xs))) = length xs"
proof -
  have "sum_list (map (\<lambda>s. length (filter (\<lambda>t. f t = s) xs)) (remdups (map f xs)))
        = (\<Sum>s\<in>set (map f xs). count_list (map f xs) s)"
    by (simp add: sum_list_distinct_conv_sum_set count_list_map_filter)
  also have "\<dots> = length (map f xs)"
    by (rule sum_count_set) simp_all
  finally show ?thesis by simp
qed

subsection \<open>Validation\<close>

lemma doValidate_title:
  "doValidate title_validators v = None \<longleftrightarrow> 1 \<le> length v \<and> length v \<le> 200"
  by (auto simp: title_validators_def)

lemma doValidate_status:
  "doValidate status_validators v = None \<longleftrightarrow> v = ''open'' \<or> v = ''done''"
  by (auto simp: status_validators_def status_values_def)

lemma validate_paths_Nil:
  "validate_paths t s = [] \<longleftrightarrow>
     (case t of None \<Rightarrow> True | Some v \<Rightarrow> 1 \<le> length v \<and> length v \<le> 200) \<and>
     (case s of None \<Rightarrow> True | Some v \<Rightarrow> v = ''open'' \<or> v = ''done'')"
proof -
  have one: "\<And>(r :: string option) p.
      ((case r of None \<Rightarrow> [] | Some m \<Rightarrow> [(p, m)]) = []) = (r = None)"
    by (simp split: option.splits)
  show ?thesis
    by (cases t; cases s) (simp_all add: validate_paths_def one doValidate_title doValidate_status)
qed

subsection \<open>The first matching document\<close>

lemma find_split:
  "find p xs = Some t \<Longrightarrow>
     \<exists>pre post. xs = pre @ t # post \<and> \<not> list_ex p pre \<and> p t
       \<and> update_first p f xs = pre @ f t # post"
proof (induction xs)
  case Nil
  then show ?case by simp
next
  case (Cons x xs)
  show ?case
  proof (cases "p x")
    case True
    with Cons.prems have "x = t" by simp
    with True have "x # xs = [] @ t # xs \<and> \<not> list_ex p [] \<and> p t
        \<and> update_first p f (x # xs) = [] @ f t # xs" by simp
    then show ?thesis by blast
  next
    case False
    with Cons.prems have "find p xs = Some t" by simp
    from Cons.IH [OF this] obtain pre post where
      "xs = pre @ t # post" "\<not> list_ex p pre" "p t" "update_first p f xs = pre @ f t # post"
      by blast
    with False have "x # xs = (x # pre) @ t # post \<and> \<not> list_ex p (x # pre) \<and> p t
        \<and> update_first p f (x # xs) = (x # pre) @ f t # post" by simp
    then show ?thesis by blast
  qed
qed

lemma update_first_all:
  "list_all P xs \<Longrightarrow> (\<And>x. P x \<Longrightarrow> P (f x)) \<Longrightarrow> list_all P (update_first p f xs)"
  by (induction xs) auto

lemma remove_first_all: "list_all P xs \<Longrightarrow> list_all P (remove_first p xs)"
  by (induction xs) auto

section \<open>The store operations\<close>

text \<open>
  C7. For every collection, \<open>findAll\<close> returns (it does not fail) the documents of the
  collection, each as often as it is stored, ordered by \<open>createdAt\<close> with the newest
  first; for the empty collection it returns the empty list.
\<close>

theorem findAll_newest_first:
  "(\<exists>ts. findAll coll = Inr ts
        \<and> sorted_wrt (\<lambda>a b. createdAt b \<le> createdAt a) ts \<and> mset ts = mset coll)
   \<and> findAll [] = Inr []"
  by (simp add: findAll_def sort_desc_mset sort_desc_sorted) (simp add: sort_createdAt_desc_def)

text \<open>
  C5. For every identifier that is not well formed (not a string of 24 hex digits),
  \<open>findById\<close> fails with the error \<open>Invalid task ID format\<close>, whatever the collection
  holds; for a well-formed identifier that no document has, it returns \<open>null\<close>; and the
  two results differ.
\<close>

theorem findById_invalid_id:
  assumes "\<not> ObjectId_isValid i" and "ObjectId_isValid j" and "\<not> list_ex (same_id j) coll'"
  shows "findById i coll = Inl (Error ''Invalid task ID format'')
       \<and> findById j coll' = Inr None
       \<and> findById i coll \<noteq> findById j coll'"
proof -
  have a: "findById i coll = Inl (Error ''Invalid task ID format'')"
    using assms(1) by (simp add: findById_def validateObjectId_def)
  have "find (same_id j) coll' = None"
    using assms(3) by (simp add: find_None_iff list_ex_iff)
  then have b: "findById j coll' = Inr None"
    using assms(2) by (simp add: findById_def validateObjectId_def)
  from a b show ?thesis by simp
qed

text \<open>The identifier \<open>not-an-id\<close> against a well-formed one, on the empty collection.\<close>

theorem findById_invalid_id_witness:
  "\<not> ObjectId_isValid ''not-an-id'' \<and> ObjectId_isValid ''507f1f77bcf86cd799439011''
   \<and> \<not> list_ex (same_id ''507f1f77bcf86cd799439011'') []
   \<and> findById ''not-an-id'' [] = Inl (Error ''Invalid task ID format'')
   \<and> findById ''507f1f77bcf86cd799439011'' [] = Inr None
   \<and> findById ''not-an-id'' [] \<noteq> findById ''507f1f77bcf86cd799439011'' []"
proof -
  have h1: "\<not> ObjectId_isValid ''not-an-id''"
    by (simp add: ObjectId_isValid_def)
  have h2: "ObjectId_isValid ''507f1f77bcf86cd799439011''"
    by (simp add: ObjectId_isValid_def is_hex_def)
  have h3: "\<not> list_ex (same_id ''507f1f77bcf86cd799439011'') []"
    by simp
  from findById_invalid_id [OF h1 h2 h3, of "[]"] h1 h2 h3 show ?thesis by simp
qed

text \<open>
  C8. In every state that a sequence of create, update and delete operations reaches,
  \<open>getStats\<close> and \<open>count\<close> both return, and the counts of the groups of \<open>getStats\<close> add up
  to the number \<open>count\<close> returns.
\<close>

theorem getStats_counts_sum_to_count:
  "\<exists>stats n. getStats (run_ops ops) = Inr stats \<and> count_tasks (run_ops ops) = Inr n
     \<and> sum_list (map stat_count stats) = n"
  by (simp add: getStats_def count_tasks_def comp_def group_counts_sum)

text \<open>
  C6. For every existing record (the first document that a well-formed identifier names)
  and every update of a title and/or a status: when the given fields are valid (the title
  has 1 to 200 characters once trimmed, the status is \<open>open\<close> or \<open>done\<close>), \<open>updateById\<close>
  returns the updated document and replaces that record in its place, with the given
  fields written (the title trimmed), \<open>_id\<close> and \<open>createdAt\<close> and every field not given
  as they were, \<open>updatedAt\<close> set to the time of the write, and every other record as it
  was; when a given field is invalid it fails with a \<open>ValidationError\<close> and the collection
  is as it was.
\<close>

theorem updateById_applies_given_fields:
  assumes "ObjectId_isValid i" and "find (same_id i) coll = Some t"
  shows "if (case ut_title u of None \<Rightarrow> True
             | Some v \<Rightarrow> 1 \<le> length (trim v) \<and> length (trim v) \<le> 200)
          \<and> (case ut_status u of None \<Rightarrow> True | Some v \<Rightarrow> v = ''open'' \<or> v = ''done'')
         then \<exists>pre post t'. coll = pre @ t # post \<and> \<not> list_ex (same_id i) pre
                \<and> updateById now i u coll = (Inr (Some t'), pre @ t' # post)
                \<and> task_id t' = task_id t \<and> createdAt t' = createdAt t
                \<and> title t' = (case ut_title u of None \<Rightarrow> title t | Some v \<Rightarrow> trim v)
                \<and> status t' = (case ut_status u of None \<Rightarrow> status t | Some v \<Rightarrow> v)
                \<and> updatedAt t' = now
         else \<exists>e. updateById now i u coll = (Inl e, coll) \<and> err_name e = ''ValidationError''"
proof -
  let ?ok = "validate_paths (map_option trim (ut_title u)) (ut_status u) = []"
  have ok_iff: "?ok \<longleftrightarrow>
      (case ut_title u of None \<Rightarrow> True
       | Some v \<Rightarrow> 1 \<le> length (trim v) \<and> length (trim v) \<le> 200)
      \<and> (case ut_status u of None \<Rightarrow> True | Some v \<Rightarrow> v = ''open'' \<or> v = ''done'')"
    by (cases "ut_title u") (simp_all add: validate_paths_Nil)
  show ?thesis
  proof (cases ?ok)
    case True
    from find_split [OF assms(2), of "apply_updates now u"] obtain pre post where
      sp: "coll = pre @ t # post" "\<not> list_ex (same_id i) pre"
          "update_first (same_id i) (apply_updates now u) coll = pre @ apply_updates now u t # post"
      by blast
    have "updateById now i u coll =
        (Inr (Some (apply_updates now u t)), pre @ apply_updates now u t # post)"
      using assms True sp(3) by (simp add: updateById_def validateObjectId_def)
    with sp(1,2) have "coll = pre @ t # post \<and> \<not> list_ex (same_id i) pre
        \<and> updateById now i u coll =
            (Inr (Some (apply_updates now u t)), pre @ apply_updates now u t # post)
        \<and> task_id (apply_updates now u t) = task_id t
        \<and> createdAt (apply_updates now u t) = createdAt t
        \<and> title (apply_updates now u t) =
            (case ut_title u of None \<Rightarrow> title t | Some v \<Rightarrow> trim v)
        \<and> status (apply_updates now u t) =
            (case ut_status u of None \<Rightarrow> status t | Some v \<Rightarrow> v)
        \<and> updatedAt (apply_updates now u t) = now"
      by (simp add: apply_updates_def)
    then have ex: "\<exists>pre post t'. coll = pre @ t # post \<and> \<not> list_ex (same_id i) pre
                \<and> updateById now i u coll = (Inr (Some t'), pre @ t' # post)
                \<and> task_id t' = task_id t \<and> createdAt t' = createdAt t
                \<and> title t' = (case ut_title u of None \<Rightarrow> title t | Some v \<Rightarrow> trim v)
                \<and> status t' = (case ut_status u of None \<Rightarrow> status t | Some v \<Rightarrow> v)
                \<and> updatedAt t' = now"
      by blast
    from True ok_iff have c:
      "(case ut_title u of None \<Rightarrow> True
        | Some v \<Rightarrow> 1 \<le> length (trim v) \<and> length (trim v) \<le> 200)
       \<and> (case ut_status u of None \<Rightarrow> True | Some v \<Rightarrow> v = ''open'' \<or> v = ''done'')"
      by blast
    show ?thesis by (subst if_P [OF c]) (rule ex)
  next
    case False
    have "updateById now i u coll =
        (Inl (ValidationError ''Validation failed''
               (validate_paths (map_option trim (ut_title u)) (ut_status u))), coll)"
      using assms(1) False by (simp add: updateById_def validateObjectId_def)
    then have ex: "\<exists>e. updateById now i u coll = (Inl e, coll) \<and> err_name e = ''ValidationError''"
      by (simp add: ValidationError_def)
    from False ok_iff have c:
      "\<not> ((case ut_title u of None \<Rightarrow> True
        | Some v \<Rightarrow> 1 \<le> length (trim v) \<and> length (trim v) \<le> 200)
       \<and> (case ut_status u of None \<Rightarrow> True | Some v \<Rightarrow> v = ''open'' \<or> v = ''done''))"
      by blast
    show ?thesis by (subst if_not_P [OF c]) (rule ex)
  qed
qed

text \<open>
  One stored task, named by its identifier in upper case: setting the status to \<open>done\<close>
  changes the status and \<open>updatedAt\<close> only; a title of blanks is refused.
\<close>

theorem updateById_applies_given_fields_witness:
  "ObjectId_isValid ''507F1F77BCF86CD799439011''
   \<and> find (same_id ''507F1F77BCF86CD799439011'')
        [\<lparr>task_id = ''507f1f77bcf86cd799439011'', title = ''Buy milk'', status = ''open'',
          createdAt = 5, updatedAt = 5\<rparr>]
      = Some \<lparr>task_id = ''507f1f77bcf86cd799439011'', title = ''Buy milk'', status = ''open'',
          createdAt = 5, updatedAt = 5\<rparr>
   \<and> (\<exists>pre post t'.
        [\<lparr>task_id = ''507f1f77bcf86cd799439011'', title = ''Buy milk'', status = ''open'',
          createdAt = 5, updatedAt = 5\<rparr>]
          = pre @ \<lparr>task_id = ''507f1f77bcf86cd799439011'', title = ''Buy milk'',
                    status = ''open'', createdAt = 5, updatedAt = 5\<rparr> # post
        \<and> updateById 9 ''507F1F77BCF86CD799439011'' \<lparr>ut_title = None, ut_status = Some ''done''\<rparr>
            [\<lparr>task_id = ''507f1f77bcf86cd799439011'', title = ''Buy milk'', status = ''open'',
              createdAt = 5, updatedAt = 5\<rparr>] = (Inr (Some t'), pre @ t' # post)
        \<and> title t' = ''Buy milk'' \<and> status t' = ''done'' \<and> createdAt t' = 5 \<and> updatedAt t' = 9)
   \<and> (\<exists>e. updateById 9 ''507F1F77BCF86CD799439011'' \<lparr>ut_title = Some ''   '', ut_status = None\<rparr>
            [\<lparr>task_id = ''507f1f77bcf86cd799439011'', title = ''Buy milk'', status = ''open'',
              createdAt = 5, updatedAt = 5\<rparr>]
          = (Inl e, [\<lparr>task_id = ''507f1f77bcf86cd799439011'', title = ''Buy milk'',
                      status = ''open'', createdAt = 5, updatedAt = 5\<rparr>])
        \<and> err_name e = ''ValidationError'')"
proof -
  let ?t = "\<lparr>task_id = ''507f1f77bcf86cd799439011'', title = ''Buy milk'', status = ''open'',
          createdAt = 5, updatedAt = 5\<rparr>"
  have h1: "ObjectId_isValid ''507F1F77BCF86CD799439011''"
    by (simp add: ObjectId_isValid_def is_hex_def)
  have h2: "find (same_id ''507F1F77BCF86CD799439011'') [?t] = Some ?t"
    by (simp add: same_id_def ascii_lower_def)
  have tr: "trim ''   '' = []"
    by (simp add: trim_def is_ws_def)
  note a = updateById_applies_given_fields
    [OF h1 h2, of "\<lparr>ut_title = None, ut_status = Some ''done''\<rparr>" 9]
  note b = updateById_applies_given_fields
    [OF h1 h2, of "\<lparr>ut_title = Some ''   '', ut_status = None\<rparr>" 9]
  from a have a': "\<exists>pre post t'. [?t] = pre @ ?t # post
        \<and> updateById 9 ''507F1F77BCF86CD799439011'' \<lparr>ut_title = None, ut_status = Some ''done''\<rparr> [?t]
            = (Inr (Some t'), pre @ t' # post)
        \<and> title t' = ''Buy milk'' \<and> status t' = ''done'' \<and> createdAt t' = 5 \<and> updatedAt t' = 9"
    by simp blast
  from b tr have b': "\<exists>e. updateById 9 ''507F1F77BCF86CD799439011''
            \<lparr>ut_title = Some ''   '', ut_status = None\<rparr> [?t]
          = (Inl e, [?t]) \<and> err_name e = ''ValidationError''"
    by simp
  from h1 h2 a' b' show ?thesis by blast
qed

subsection \<open>The status of the stored documents\<close>

lemma create_status:
  "list_all status_ok coll \<Longrightarrow> list_all status_ok (snd (create now oid d coll))"
  by (simp add: create_def Let_def status_ok_def status_default_def)

lemma update_status:
  assumes "list_all status_ok coll"
  shows "list_all status_ok (snd (updateById now i u coll))"
proof (cases "validateObjectId i = None
    \<and> validate_paths (map_option trim (ut_title u)) (ut_status u) = []")
  case True
  then have "case ut_status u of None \<Rightarrow> True | Some v \<Rightarrow> v = ''open'' \<or> v = ''done''"
    by (simp add: validate_paths_Nil)
  then have "\<And>x. status_ok x \<Longrightarrow> status_ok (apply_updates now u x)"
    by (auto simp: status_ok_def apply_updates_def split: option.splits)
  with assms have "list_all status_ok (update_first (same_id i) (apply_updates now u) coll)"
    by (rule update_first_all)
  with True assms show ?thesis
    by (simp add: updateById_def split: option.splits)
next
  case False
  with assms show ?thesis
    by (auto simp: updateById_def split: option.splits)
qed

lemma delete_status:
  "list_all status_ok coll \<Longrightarrow> list_all status_ok (snd (deleteById i coll))"
  by (simp add: deleteById_def remove_first_all split: option.splits)

lemma apply_op_status: "list_all status_ok coll \<Longrightarrow> list_all status_ok (apply_op op coll)"
  by (cases op) (simp_all add: create_status update_status delete_status)

lemma foldl_status:
  "list_all status_ok coll \<Longrightarrow> list_all status_ok (foldl (\<lambda>c op. apply_op op c) coll ops)"
  by (induction ops arbitrary: coll) (simp_all add: apply_op_status)

text \<open>
  C9. In every state that a sequence of create, update and delete operations reaches,
  the status of every stored task is \<open>open\<close> or \<open>done\<close>; and a task that \<open>create\<close> returns
  (its input has a title only) has the status \<open>open\<close>.
\<close>

theorem status_always_open_or_done:
  "list_all (\<lambda>t. status t = ''open'' \<or> status t = ''done'') (run_ops ops)
   \<and> (\<forall>t. fst (create now oid d coll) = Inr t \<longrightarrow> status t = ''open'')"
proof -
  have "list_all status_ok (run_ops ops)"
    unfolding run_ops_def by (rule foldl_status) simp
  then have "list_all (\<lambda>t. status t = ''open'' \<or> status t = ''done'') (run_ops ops)"
    by (simp add: status_ok_def [abs_def])
  moreover have "\<forall>t. fst (create now oid d coll) = Inr t \<longrightarrow> status t = ''open''"
    by (auto simp: create_def Let_def status_default_def split: if_splits)
  ultimately show ?thesis by simp
qed

text \<open>
  A task is created, then an update tries the status \<open>doing\<close>: the update is refused and
  the stored status is still \<open>open\<close>.
\<close>

theorem status_always_open_or_done_witness:
  "fst (create 5 ''507f1f77bcf86cd799439011'' \<lparr>ct_title = ''  Buy milk  ''\<rparr> [])
     = Inr \<lparr>task_id = ''507f1f77bcf86cd799439011'', title = ''Buy milk'', status = ''open'',
            createdAt = 5, updatedAt = 5\<rparr>
   \<and> status \<lparr>task_id = ''507f1f77bcf86cd799439011'', title = ''Buy milk'', status = ''open'',
            createdAt = 5, updatedAt = 5\<rparr> = ''open''
   \<and> list_all (\<lambda>t. status t = ''open'' \<or> status t = ''done'')
        (run_ops [Create 5 ''507f1f77bcf86cd799439011'' \<lparr>ct_title = ''  Buy milk  ''\<rparr>,
                  UpdateById 9 ''507f1f77bcf86cd799439011''
                    \<lparr>ut_title = None, ut_status = Some ''doing''\<rparr>])"
proof -
  have c: "fst (create 5 ''507f1f77bcf86cd799439011'' \<lparr>ct_title = ''  Buy milk  ''\<rparr> [])
     = Inr \<lparr>task_id = ''507f1f77bcf86cd799439011'', title = ''Buy milk'', status = ''open'',
            createdAt = 5, updatedAt = 5\<rparr>"
    by (simp add: create_def Let_def trim_def is_ws_def status_default_def validate_paths_def
        title_validators_def status_validators_def status_values_def)
  from status_always_open_or_done
    [of "[Create 5 ''507f1f77bcf86cd799439011'' \<lparr>ct_title = ''  Buy milk  ''\<rparr>,
          UpdateById 9 ''507f1f77bcf86cd799439011''
            \<lparr>ut_title = None, ut_status = Some ''doing''\<rparr>]"
        5 "''507f1f77bcf86cd799439011''" "\<lparr>ct_title = ''  Buy milk  ''\<rparr>" "[]"] c
  show ?thesis by simp
qed

section \<open>The service\<close>

text \<open>
  C3, as the code has it. For every input, \<open>createTask\<close> fails with the error
  \<open>Not implemented yet ...\<close> (a plain \<open>Error\<close>) and no record is persisted; its result is
  never the result of the store's \<open>create\<close>, whatever the clock, the identifier and the
  collection that \<open>create\<close> is given.
\<close>

theorem createTask_not_implemented:
  "createTask d coll =
     (Inl (JsError ''Error''
             ''Not implemented yet - you need to implement task creation in services!'' None),
      coll)
   \<and> snd (createTask d coll) = coll
   \<and> fst (createTask d coll) \<noteq> map_sum id formatTaskResponse (fst (create now oid d coll'))"
  by (auto simp: createTask_def Error_def create_def Let_def ValidationError_def
      DuplicateKeyError_def)

text \<open>
  C3 as the spec states it fails for the title \<open>Buy milk\<close>, which is not empty once
  trimmed: the store's \<open>create\<close> returns the new task, \<open>createTask\<close> fails.
\<close>

theorem createTask_counterexample:
  "trim ''Buy milk'' = ''Buy milk''
   \<and> createTask \<lparr>ct_title = ''Buy milk''\<rparr> []
       = (Inl (Error ''Not implemented yet - you need to implement task creation in services!''),
          [])
   \<and> fst (create 5 ''507f1f77bcf86cd799439011'' \<lparr>ct_title = ''Buy milk''\<rparr> [])
       = Inr \<lparr>task_id = ''507f1f77bcf86cd799439011'', title = ''Buy milk'', status = ''open'',
              createdAt = 5, updatedAt = 5\<rparr>"
  by (simp add: createTask_def create_def Let_def trim_def is_ws_def status_default_def
      validate_paths_def title_validators_def status_validators_def status_values_def)

section \<open>The routes\<close>

lemma strip_mount_api_tasks:
  "strip_mount [''api'', ''tasks''] (''api'' # ''tasks'' # rest) = Some rest"
  by (simp add: ascii_lower_def)

lemma strip_mount_api_health_tasks:
  "strip_mount [''api'', ''health''] (''api'' # ''tasks'' # rest) = None"
  by (simp add: ascii_lower_def)

lemma app_tasks:
  "app health production \<lparr>req_method = m, req_path = ''api'' # ''tasks'' # rest, req_body = b\<rparr> coll =
     (case dispatch taskRoutes \<lparr>req_method = m, req_path = rest, req_body = b\<rparr> coll of
        None \<Rightarrow>
          (case decode_param (raw_path (''api'' # ''tasks'' # rest)) of
             None \<Rightarrow> (notFound, coll)
           | Some e \<Rightarrow> (errorHandler production e, coll))
      | Some (Inr res, coll') \<Rightarrow> (res, coll')
      | Some (Inl e, coll') \<Rightarrow> (errorHandler production e, coll'))"
  unfolding app_def mounted_def
  by (simp only: Request.simps strip_mount_api_tasks strip_mount_api_health_tasks option.case)

text \<open>
  C1, as the code has it. For every create request, whatever its body, \<open>POST /tasks\<close>
  responds with the status 501 and an envelope with \<open>success: false\<close>, the error
  \<open>Not implemented yet ...\<close> and no data, and the collection is as it was.
\<close>

theorem post_tasks_not_implemented:
  "app health production
     \<lparr>req_method = POST, req_path = [''api'', ''tasks''], req_body = b\<rparr> coll =
     (\<lparr>statusCode = 501,
       body = \<lparr>success = False, data = None,
                error = Some ''Not implemented yet - you need to implement task creation!'',
                details = None\<rparr>\<rparr>, coll)"
  by (simp add: app_tasks dispatch_def taskRoutes_def post_task_def not_implemented_def)

text \<open>
  C1 as the spec states it fails for the body \<open>{"title": "  Buy milk  "}\<close>, whose title has
  8 characters once trimmed: the status is 501, not 201, and there is no data.
\<close>

theorem post_tasks_counterexample:
  "length (trim ''  Buy milk  '') = 8
   \<and> statusCode (fst (app (\<lambda>r c. None) False
        \<lparr>req_method = POST, req_path = [''api'', ''tasks''],
         req_body = [(''title'', ''  Buy milk  '')]\<rparr> [])) = 501
   \<and> statusCode (fst (app (\<lambda>r c. None) False
        \<lparr>req_method = POST, req_path = [''api'', ''tasks''],
         req_body = [(''title'', ''  Buy milk  '')]\<rparr> [])) \<noteq> 201
   \<and> data (body (fst (app (\<lambda>r c. None) False
        \<lparr>req_method = POST, req_path = [''api'', ''tasks''],
         req_body = [(''title'', ''  Buy milk  '')]\<rparr> []))) = None"
  by (simp add: app_tasks dispatch_def taskRoutes_def post_task_def not_implemented_def trim_def
      is_ws_def)

lemma dispatch_by_id:
  assumes "seg \<noteq> []" and "CHR ''/'' \<notin> set seg" and "map ascii_lower seg \<noteq> ''stats''"
  shows "dispatch taskRoutes \<lparr>req_method = GET, req_path = [seg], req_body = b\<rparr> coll =
     (case decode_param seg of
        None \<Rightarrow> Some (get_by_id \<lparr>req_method = GET, req_path = [seg], req_body = b\<rparr> coll)
      | Some e \<Rightarrow> Some (Inl e, coll))"
proof -
  have "map ascii_lower ''stats'' = ''stats''" by (simp add: ascii_lower_def)
  with assms show ?thesis
    by (cases "decode_param seg") (simp_all add: dispatch_def taskRoutes_def)
qed

text \<open>
  C4, as the code has it. For every request \<open>GET /tasks/:id\<close> whose id segment (one or
  more characters other than \<open>/\<close>) is not a well-formed identifier and is not \<open>stats\<close> in
  any case of its letters, the response has an envelope with \<open>success: false\<close> and no
  data, and the collection is as it was: with the status 501 and the error
  \<open>Not implemented yet ...\<close> when the segment decodes as a URI component, and with the
  status 500 from the error handler when it does not.
\<close>

theorem get_task_by_id_malformed:
  assumes "\<not> ObjectId_isValid seg" and "seg \<noteq> []" and "CHR ''/'' \<notin> set seg"
    and "map ascii_lower seg \<noteq> ''stats''"
  shows "app health production
           \<lparr>req_method = GET, req_path = [''api'', ''tasks'', seg], req_body = b\<rparr> coll =
     (if uri_decodes [] seg then
        \<lparr>statusCode = 501,
         body = \<lparr>success = False, data = None,
                  error = Some ''Not implemented yet - you need to implement get task by ID!'',
                  details = None\<rparr>\<rparr>
      else
        \<lparr>statusCode = 500,
         body = \<lparr>success = False, data = None,
                  error = Some (if production then ''Internal server error''
                                else ''Failed to decode param '' @ [CHR 0x27] @ seg @ [CHR 0x27]),
                  details = None\<rparr>\<rparr>,
      coll)"
proof (cases "uri_decodes [] seg")
  case True
  then have "decode_param seg = None" by (simp add: decode_param_def)
  with True show ?thesis
    by (simp add: app_tasks dispatch_by_id [OF assms(2,3,4)] get_by_id_def not_implemented_def)
next
  case False
  with assms(2) have "decode_param seg =
      Some (JsError ''URIError'' (''Failed to decode param '' @ [CHR 0x27] @ seg @ [CHR 0x27]) None)"
    by (simp add: decode_param_def)
  with False show ?thesis
    by (simp add: app_tasks dispatch_by_id [OF assms(2,3,4)] errorHandler_def)
qed

text \<open>
  The segment \<open>not-an-id\<close> decodes and gets the 501 of the by-id handler; the segment
  \<open>%E0%A4%A\<close>, whose last escape is cut short, does not decode and gets the 500 of the
  error handler.
\<close>

theorem get_task_by_id_malformed_witness:
  "\<not> ObjectId_isValid ''not-an-id'' \<and> ''not-an-id'' \<noteq> [] \<and> CHR ''/'' \<notin> set ''not-an-id''
   \<and> map ascii_lower ''not-an-id'' \<noteq> ''stats''
   \<and> app (\<lambda>r c. None) True
        \<lparr>req_method = GET, req_path = [''api'', ''tasks'', ''not-an-id''], req_body = []\<rparr> [] =
     (\<lparr>statusCode = 501,
       body = \<lparr>success = False, data = None,
                error = Some ''Not implemented yet - you need to implement get task by ID!'',
                details = None\<rparr>\<rparr>, [])
   \<and> \<not> ObjectId_isValid ''%E0%A4%A'' \<and> ''%E0%A4%A'' \<noteq> [] \<and> CHR ''/'' \<notin> set ''%E0%A4%A''
   \<and> map ascii_lower ''%E0%A4%A'' \<noteq> ''stats''
   \<and> app (\<lambda>r c. None) True
        \<lparr>req_method = GET, req_path = [''api'', ''tasks'', ''%E0%A4%A''], req_body = []\<rparr> [] =
     (\<lparr>statusCode = 500,
       body = \<lparr>success = False, data = None, error = Some ''Internal server error'',
                details = None\<rparr>\<rparr>, [])"
proof -
  have h1: "\<not> ObjectId_isValid ''not-an-id''" by (simp add: ObjectId_isValid_def)
  have h2: "''not-an-id'' \<noteq> []" by simp
  have h3: "CHR ''/'' \<notin> set ''not-an-id''" by simp
  have h4: "map ascii_lower ''not-an-id'' \<noteq> ''stats''" by (simp add: ascii_lower_def)
  have d: "uri_decodes [] ''not-an-id''" by simp
  have k1: "\<not> ObjectId_isValid ''%E0%A4%A''" by (simp add: ObjectId_isValid_def)
  have k2: "''%E0%A4%A'' \<noteq> []" by simp
  have k3: "CHR ''/'' \<notin> set ''%E0%A4%A''" by simp
  have k4: "map ascii_lower ''%E0%A4%A'' \<noteq> ''stats''" by (simp add: ascii_lower_def)
  have n: "\<not> uri_decodes [] ''%E0%A4%A''"
    by (simp add: pct_byte_def hex_val_def continuation_ranges_def)
  from get_task_by_id_malformed [OF h1 h2 h3 h4, of "\<lambda>r c. None" True "[]" "[]"] d
  have a: "app (\<lambda>r c. None) True
        \<lparr>req_method = GET, req_path = [''api'', ''tasks'', ''not-an-id''], req_body = []\<rparr> [] =
     (\<lparr>statusCode = 501,
       body = \<lparr>success = False, data = None,
                error = Some ''Not implemented yet - you need to implement get task by ID!'',
                details = None\<rparr>\<rparr>, [])"
    by (simp only: if_True)
  from get_task_by_id_malformed [OF k1 k2 k3 k4, of "\<lambda>r c. None" True "[]" "[]"] n
  have b: "app (\<lambda>r c. None) True
        \<lparr>req_method = GET, req_path = [''api'', ''tasks'', ''%E0%A4%A''], req_body = []\<rparr> [] =
     (\<lparr>statusCode = 500,
       body = \<lparr>success = False, data = None, error = Some ''Internal server error'',
                details = None\<rparr>\<rparr>, [])"
    by (simp only: if_False if_True)
  from h1 h2 h3 h4 k1 k2 k3 k4 a b show ?thesis by blast
qed

text \<open>
  C4 as the spec states it fails for \<open>GET /tasks/not-an-id\<close>: the status is 501, not 400.
\<close>

theorem get_task_by_id_counterexample:
  "\<not> ObjectId_isValid ''not-an-id''
   \<and> statusCode (fst (app (\<lambda>r c. None) False
        \<lparr>req_method = GET, req_path = [''api'', ''tasks'', ''not-an-id''],
         req_body = []\<rparr> [])) = 501
   \<and> statusCode (fst (app (\<lambda>r c. None) False
        \<lparr>req_method = GET, req_path = [''api'', ''tasks'', ''not-an-id''],
         req_body = []\<rparr> [])) \<noteq> 400"
  by (simp add: app_tasks dispatch_def taskRoutes_def get_by_id_def not_implemented_def
      ObjectId_isValid_def ascii_lower_def decode_param_def)

text \<open>
  C10. A request \<open>GET /api/tasks/stats\<close> goes to the statistics handler, the first route
  of the router that matches it: the response is 200 with the statistics of the
  collection as its data; it is not the response the by-id handler sends, and it is not
  the response that the error handler makes of the invalid-id error.
\<close>

theorem stats_route_before_id_route:
  "dispatch taskRoutes \<lparr>req_method = GET, req_path = [''stats''], req_body = b\<rparr> coll
     = Some (get_stats \<lparr>req_method = GET, req_path = [''stats''], req_body = b\<rparr> coll)
   \<and> (\<exists>stats. getStats coll = Inr stats \<and>
        app health production
          \<lparr>req_method = GET, req_path = [''api'', ''tasks'', ''stats''], req_body = b\<rparr> coll
          = (\<lparr>statusCode = 200,
              body = \<lparr>success = True, data = Some (StatsData stats), error = None,
                       details = None\<rparr>\<rparr>, coll))
   \<and> Inr (fst (app health production
          \<lparr>req_method = GET, req_path = [''api'', ''tasks'', ''stats''], req_body = b\<rparr> coll))
       \<noteq> fst (get_by_id \<lparr>req_method = GET, req_path = [''stats''], req_body = b\<rparr> coll)
   \<and> fst (app health production
          \<lparr>req_method = GET, req_path = [''api'', ''tasks'', ''stats''], req_body = b\<rparr> coll)
       \<noteq> errorHandler production (Error ''Invalid task ID format'')"
  by (simp add: app_tasks dispatch_def taskRoutes_def get_stats_def getTaskStats_def
      getStats_def get_by_id_def not_implemented_def errorHandler_def Error_def ascii_lower_def)

section \<open>The client cache\<close>

text \<open>
  C2, as the code has it. For every create mutation issued through the hook, a read of
  the cache right after the issue shows the list as it was before (the hook has no
  \<open>onMutate\<close>, so no provisional task is added); when the call fails, the cache is as
  it was before the mutation; the call of the binding does fail, so a whole mutation
  leaves the cache as it was; and whatever the outcome, the cached list is the list
  from before the mutation.
\<close>

theorem create_mutation_leaves_cache:
  "snd (issue useCreateTask input cache) = cache
   \<and> resolve useCreateTask (Inl e) input (fst (issue useCreateTask input cache))
        (snd (issue useCreateTask input cache)) = cache
   \<and> mutate useCreateTask input cache = cache
   \<and> tasksList (resolve useCreateTask outcome input (fst (issue useCreateTask input cache))
        (snd (issue useCreateTask input cache))) = tasksList cache"
  by (cases outcome)
     (simp_all add: issue_def resolve_def mutate_def useCreateTask_def taskApi_createTask_def
        invalidateQueries_tasksList_def)

text \<open>
  C2 as the spec states it fails on the empty cached list: right after a create is
  issued the list is still empty, where the claim has one provisional task in it.
\<close>

theorem optimistic_create_counterexample:
  "tasksList (snd (issue useCreateTask \<lparr>ct_title = ''Buy milk''\<rparr>
       \<lparr>tasksList = Some [], tasksList_invalidated = False\<rparr>)) = Some []
   \<and> map_option length (tasksList (snd (issue useCreateTask \<lparr>ct_title = ''Buy milk''\<rparr>
       \<lparr>tasksList = Some [], tasksList_invalidated = False\<rparr>))) \<noteq> Some (Suc 0)"
  by (simp add: issue_def useCreateTask_def)

end
